theory Spec2Isabelle
  imports Complex_Main
begin

section \<open>JavaScript values, coercions and thrown values\<close>

text \<open>
  Tool arguments and vendor payloads arrive as parsed JSON, so they are modelled by the
  values JSON can carry, plus \<open>undefined\<close> for an absent property. A number is its exact
  value (JSON cannot carry NaN or an infinity). An object is the list of its own
  properties in insertion order; a parsed object has no two properties of one name.
\<close>

datatype jsval =
    JUndefined
  | JNull
  | JBool bool
  | JNum rat
  | JStr string
  | JArr "jsval list"
  | JObj "(string \<times> jsval) list"

text \<open>
  Modelled from the spec: the \<open>ErrorCode\<close> enumeration of the protocol SDK, which is
  imported by every source file and is not part of the repository. The members are the
  five codes of the error taxonomy.
\<close>

datatype ErrorCode = ParseError | InvalidRequest | MethodNotFound | InvalidParams | InternalError

text \<open>
  What a \<open>throw\<close> can carry here: the object literal \<open>{code, message, data?}\<close> the
  source builds (\<open>data\<close> holds the value that was caught), or an instance of \<open>Error\<close>
  (a \<open>TypeError\<close> of the runtime, a failure of the vendor client), kept by its message.
\<close>

datatype thrown =
    ErrorObject ErrorCode string "thrown option"
  | NativeError string

type_synonym 'a outcome = "thrown + 'a"

text \<open>
  The two builtins whose results the code passes on without looking into them:
  \<open>Number.prototype.toString\<close> and \<open>JSON.stringify(v, null, indent)\<close> (a string, or
  \<open>undefined\<close> when \<open>v\<close> is \<open>undefined\<close>; indent 0 when the source passes none). They
  are parameters of the model.
\<close>

record runtime =
  number_to_string :: "rat \<Rightarrow> string"
  json_stringify :: "nat \<Rightarrow> jsval \<Rightarrow> jsval"

text \<open>\<open>Boolean(v)\<close>, also the test of \<open>!v\<close>, \<open>v || w\<close> and \<open>if (v)\<close>.\<close>

fun to_boolean :: "jsval \<Rightarrow> bool" where
  "to_boolean JUndefined = False"
| "to_boolean JNull = False"
| "to_boolean (JBool b) = b"
| "to_boolean (JNum q) = (q \<noteq> 0)"
| "to_boolean (JStr s) = (s \<noteq> [])"
| "to_boolean (JArr xs) = True"
| "to_boolean (JObj kvs) = True"

definition js_or :: "jsval \<Rightarrow> jsval \<Rightarrow> jsval" where
  "js_or v w = (if to_boolean v then v else w)"

fun join :: "string list \<Rightarrow> string" where
  "join [] = []"
| "join [s] = s"
| "join (s # t # ss) = s @ '','' @ join (t # ss)"

text \<open>
  \<open>String(v)\<close>. \<open>None\<close> is the \<open>TypeError\<close> of an object that cannot be converted:
  a parsed object has no callable property, so an own property \<open>toString\<close> hides
  \<open>Object.prototype.toString\<close> and the conversion fails; without it the result is
  \<open>[object Object]\<close>. An array joins the conversions of its elements with commas, an
  element \<open>null\<close> or \<open>undefined\<close> giving the empty string.
\<close>

fun to_string :: "runtime \<Rightarrow> jsval \<Rightarrow> string option" where
  "to_string rt JUndefined = Some ''undefined''"
| "to_string rt JNull = Some ''null''"
| "to_string rt (JBool b) = Some (if b then ''true'' else ''false'')"
| "to_string rt (JNum q) = Some (number_to_string rt q)"
| "to_string rt (JStr s) = Some s"
| "to_string rt (JArr xs) =
     map_option join
       (those (map (\<lambda>x. if x = JUndefined \<or> x = JNull then Some [] else to_string rt x) xs))"
| "to_string rt (JObj kvs) =
     (if ''toString'' \<in> fst ` set kvs then None else Some ''[object Object]'')"

text \<open>
  \<open>typeof v === 'object'\<close> holds of objects, arrays and \<open>null\<close>.
\<close>

fun typeof_object :: "jsval \<Rightarrow> bool" where
  "typeof_object JNull = True"
| "typeof_object (JArr xs) = True"
| "typeof_object (JObj kvs) = True"
| "typeof_object v = False"

text \<open>
  \<open>k in v\<close> and \<open>v?.[k]\<close>, for the property names the source uses (\<open>deviceId\<close>,
  \<open>state\<close>, \<open>agentUserId\<close>, \<open>payload\<close>, \<open>devices\<close>, \<open>id\<close>, the trait names and
  their fields): none of them is a builtin property of an object, an array or a
  primitive, so only an object's own properties answer. \<open>in\<close> is applied by the source
  only after \<open>typeof v === 'object'\<close> and \<open>!v\<close> have excluded the primitives and
  \<open>null\<close>. Optional chaining turns a read on \<open>null\<close> or \<open>undefined\<close> into \<open>undefined\<close>.
\<close>

fun js_in :: "string \<Rightarrow> jsval \<Rightarrow> bool" where
  "js_in k (JObj kvs) = (k \<in> fst ` set kvs)"
| "js_in k v = False"

fun opt_member :: "jsval \<Rightarrow> string \<Rightarrow> jsval" where
  "opt_member (JObj kvs) k = (case map_of kvs k of Some v \<Rightarrow> v | None \<Rightarrow> JUndefined)"
| "opt_member v k = JUndefined"

text \<open>\<open>v.k\<close> without optional chaining: a \<open>TypeError\<close> on \<open>null\<close> and \<open>undefined\<close>.\<close>

definition member :: "jsval \<Rightarrow> string \<Rightarrow> jsval outcome" where
  "member v k =
     (if v = JUndefined \<or> v = JNull then Inl (NativeError ''TypeError'')
      else Inr (opt_member v k))"

section \<open>The device backend (Smart Device Management)\<close>

text \<open>
  A device record of the vendor's list and get responses: an object with the optional
  properties \<open>name\<close>, \<open>type\<close> and \<open>traits\<close> (\<open>JUndefined\<close> when absent).
\<close>

record device =
  device_name :: jsval
  device_type :: jsval
  device_traits :: jsval

text \<open>
  The vendor client the service is constructed with. Each operation answers with the
  value the promise rejects with, or with the \<open>data\<close> of the response:
  \<open>response.data.devices\<close> for a list (\<open>None\<close> when absent), \<open>response.data\<close> for a
  get (\<open>None\<close> when it is empty).
\<close>

record sdm_client =
  devices_list :: "string \<Rightarrow> device list option outcome"
  devices_executeCommand :: "string \<Rightarrow> string \<Rightarrow> bool \<Rightarrow> unit outcome"
  devices_get :: "string \<Rightarrow> device option outcome"

text \<open>The calls that reach the vendor, in order, are returned beside every outcome.\<close>

datatype sdm_call =
    DevicesList string
  | ExecuteCommand string string bool
  | DevicesGet string

definition not_initialized :: thrown where
  "not_initialized = ErrorObject InternalError ''Smart Device Management API not initialized'' None"

definition OUTLET :: string where
  "OUTLET = ''sdm.devices.types.OUTLET''"

definition customName :: "device \<Rightarrow> jsval" where
  "customName d = opt_member (opt_member (device_traits d) ''sdm.devices.traits.Info'') ''customName''"

definition trait_on :: "device \<Rightarrow> jsval" where
  "trait_on d = opt_member (opt_member (device_traits d) ''sdm.devices.traits.OnOff'') ''on''"

definition trait_status :: "device \<Rightarrow> jsval" where
  "trait_status d = opt_member (opt_member (device_traits d) ''sdm.devices.traits.Connectivity'') ''status''"

text \<open>The object built for a device by \<open>listDevices\<close> and by \<open>getDeviceState\<close>.\<close>

definition smartPlug :: "device \<Rightarrow> jsval" where
  "smartPlug d = JObj
     [(''id'', device_name d),
      (''name'', js_or (customName d) (device_name d)),
      (''type'', device_type d),
      (''traits'', js_or (device_traits d) (JObj [])),
      (''state'', JObj
         [(''on'', JBool (to_boolean (trait_on d))),
          (''online'', JBool (trait_status d = JStr ''ONLINE''))])]"

definition listDevices :: "sdm_client option \<Rightarrow> sdm_call list \<times> jsval outcome" where
  "listDevices sdm =
     (case sdm of
        None \<Rightarrow> ([], Inl not_initialized)
      | Some client \<Rightarrow>
          ([DevicesList ''enterprises/-''],
           case devices_list client ''enterprises/-'' of
             Inl error \<Rightarrow> Inl (ErrorObject InternalError ''Failed to get devices'' (Some error))
           | Inr response \<Rightarrow>
               (let devices = (case response of Some ds \<Rightarrow> ds | None \<Rightarrow> []);
                    smartPlugs = map smartPlug (filter (\<lambda>d. device_type d = JStr OUTLET) devices)
                in Inr (JArr smartPlugs))))"

definition controlDevice :: "sdm_client option \<Rightarrow> string \<Rightarrow> bool \<Rightarrow> sdm_call list \<times> unit outcome" where
  "controlDevice sdm deviceId state =
     (case sdm of
        None \<Rightarrow> ([], Inl not_initialized)
      | Some client \<Rightarrow>
          ([ExecuteCommand deviceId ''sdm.devices.commands.OnOff.Set'' state],
           case devices_executeCommand client deviceId ''sdm.devices.commands.OnOff.Set'' state of
             Inl error \<Rightarrow>
               Inl (ErrorObject InternalError (''Failed to control device '' @ deviceId) (Some error))
           | Inr ack \<Rightarrow> Inr ()))"

text \<open>
  In \<open>getDeviceState\<close> the \<open>throw\<close> for an empty response stands inside the \<open>try\<close>
  block, so the \<open>catch\<close> of that block receives it like any failure of the vendor call.
\<close>

definition getDeviceState :: "sdm_client option \<Rightarrow> string \<Rightarrow> sdm_call list \<times> jsval outcome" where
  "getDeviceState sdm deviceId =
     (case sdm of
        None \<Rightarrow> ([], Inl not_initialized)
      | Some client \<Rightarrow>
          ([DevicesGet deviceId],
           let tried =
             (case devices_get client deviceId of
                Inl error \<Rightarrow> Inl error
              | Inr None \<Rightarrow> Inl (ErrorObject InvalidParams (''Device not found: '' @ deviceId) None)
              | Inr (Some d) \<Rightarrow> Inr (smartPlug d))
           in (case tried of
                 Inl error \<Rightarrow>
                   Inl (ErrorObject InternalError (''Failed to get device state: '' @ deviceId) (Some error))
               | Inr plug \<Rightarrow> Inr plug)))"

section \<open>The tool handlers over the device backend\<close>

definition sdm_list_smart_plugs :: "sdm_client option \<Rightarrow> sdm_call list \<times> jsval outcome" where
  "sdm_list_smart_plugs sdm = listDevices sdm"

definition sdm_control_smart_plug ::
  "runtime \<Rightarrow> sdm_client option \<Rightarrow> jsval \<Rightarrow> sdm_call list \<times> jsval outcome" where
  "sdm_control_smart_plug rt sdm args =
     (if \<not> to_boolean args \<or> \<not> typeof_object args \<or> \<not> js_in ''deviceId'' args \<or> \<not> js_in ''state'' args
      then ([], Inl (ErrorObject InvalidParams ''Missing required parameters: deviceId and state'' None))
      else
        (case to_string rt (opt_member args ''deviceId'') of
           None \<Rightarrow> ([], Inl (NativeError ''TypeError''))
         | Some deviceId \<Rightarrow>
             (let state = to_boolean (opt_member args ''state'')
              in (case controlDevice sdm deviceId state of
                    (calls, Inl error) \<Rightarrow> (calls, Inl error)
                  | (calls, Inr done) \<Rightarrow>
                      (calls, Inr (JObj
                         [(''success'', JBool True),
                          (''device'', JObj
                             [(''id'', JStr deviceId),
                              (''state'', JObj
                                 [(''on'', JBool state), (''online'', JBool True)])])]))))))"

definition sdm_get_smart_plug_state ::
  "runtime \<Rightarrow> sdm_client option \<Rightarrow> jsval \<Rightarrow> sdm_call list \<times> jsval outcome" where
  "sdm_get_smart_plug_state rt sdm args =
     (if \<not> to_boolean args \<or> \<not> typeof_object args \<or> \<not> js_in ''deviceId'' args
      then ([], Inl (ErrorObject InvalidParams ''Missing required parameter: deviceId'' None))
      else
        (case to_string rt (opt_member args ''deviceId'') of
           None \<Rightarrow> ([], Inl (NativeError ''TypeError''))
         | Some deviceId \<Rightarrow> getDeviceState sdm deviceId))"

section \<open>The legacy server: one switch over the tool name\<close>

definition legacyPlug :: "device \<Rightarrow> jsval" where
  "legacyPlug d = JObj
     [(''id'', device_name d),
      (''name'', js_or (customName d) (device_name d)),
      (''type'', js_or (device_type d) (JStr OUTLET)),
      (''traits'', js_or (device_traits d) (JObj [])),
      (''state'', JObj
         [(''on'', JBool (to_boolean (trait_on d))),
          (''online'', JBool (trait_status d = JStr ''ONLINE''))])]"

definition getSmartPlugs :: "sdm_client option \<Rightarrow> sdm_call list \<times> jsval outcome" where
  "getSmartPlugs sdm =
     (case sdm of
        None \<Rightarrow> ([], Inl not_initialized)
      | Some client \<Rightarrow>
          ([DevicesList ''enterprises/me''],
           case devices_list client ''enterprises/me'' of
             Inl error \<Rightarrow> Inl (ErrorObject InternalError ''Failed to get devices'' (Some error))
           | Inr response \<Rightarrow>
               (let devices = (case response of Some ds \<Rightarrow> ds | None \<Rightarrow> []);
                    smartPlugs = map legacyPlug
                      (filter (\<lambda>d. device_type d = JStr OUTLET \<and> to_boolean (device_name d)) devices)
                in Inr (JArr smartPlugs))))"

definition legacy_callTool ::
  "runtime \<Rightarrow> sdm_client option \<Rightarrow> string \<Rightarrow> jsval \<Rightarrow> sdm_call list \<times> jsval outcome" where
  "legacy_callTool rt sdm name args =
     (if name = ''list_smart_plugs'' then getSmartPlugs sdm
      else if name = ''control_smart_plug'' then
        (if \<not> to_boolean args \<or> \<not> typeof_object args \<or> \<not> js_in ''deviceId'' args \<or> \<not> js_in ''state'' args
         then ([], Inl (ErrorObject InvalidParams ''Missing required parameters: deviceId and state'' None))
         else
           (case to_string rt (opt_member args ''deviceId'') of
              None \<Rightarrow> ([], Inl (NativeError ''TypeError''))
            | Some deviceId \<Rightarrow>
                (let state = to_boolean (opt_member args ''state'')
                 in (case sdm of
                       None \<Rightarrow> ([], Inl not_initialized)
                     | Some client \<Rightarrow>
                         ([ExecuteCommand deviceId ''sdm.devices.commands.OnOff.Set'' state],
                          case devices_executeCommand client deviceId ''sdm.devices.commands.OnOff.Set'' state of
                            Inl error \<Rightarrow>
                              Inl (ErrorObject InternalError (''Failed to control device '' @ deviceId) (Some error))
                          | Inr ack \<Rightarrow>
                              Inr (JObj
                                [(''success'', JBool True),
                                 (''device'', JObj
                                    [(''id'', JStr deviceId),
                                     (''state'', JObj
                                        [(''on'', JBool state), (''online'', JBool True)])])]))))))
      else if name = ''get_smart_plug_state'' then
        (if \<not> to_boolean args \<or> \<not> typeof_object args \<or> \<not> js_in ''deviceId'' args
         then ([], Inl (ErrorObject InvalidParams ''Missing required parameter: deviceId'' None))
         else
           (case to_string rt (opt_member args ''deviceId'') of
              None \<Rightarrow> ([], Inl (NativeError ''TypeError''))
            | Some deviceId \<Rightarrow>
                (case sdm of
                   None \<Rightarrow> ([], Inl not_initialized)
                 | Some client \<Rightarrow>
                     ([DevicesGet deviceId],
                      let tried =
                        (case devices_get client deviceId of
                           Inl error \<Rightarrow> Inl error
                         | Inr None \<Rightarrow>
                             Inl (ErrorObject InvalidParams (''Device not found: '' @ deviceId) None)
                         | Inr (Some d) \<Rightarrow>
                             Inr (JObj
                               [(''id'', device_name d),
                                (''name'', js_or (customName d) (device_name d)),
                                (''type'', device_type d),
                                (''state'', JObj
                                   [(''on'', js_or (trait_on d) (JBool False)),
                                    (''online'', JBool (trait_status d = JStr ''ONLINE''))])]))
                      in (case tried of
                            Inl error \<Rightarrow>
                              Inl (ErrorObject InternalError
                                     (''Failed to get device state: '' @ deviceId) (Some error))
                          | Inr content \<Rightarrow> Inr content)))))
      else ([], Inl (ErrorObject MethodNotFound (''Unknown tool: '' @ name) None)))"

text \<open>
  The fields of the server object: the configuration read at construction, the OAuth
  client and the vendor client, the last two \<open>null\<close> until \<open>setupAuth\<close> has run.
\<close>

record Config =
  clientId :: string
  clientSecret :: string
  refreshToken :: "string option"

record OAuth2Client =
  client_id :: string
  client_secret :: string
  refresh_token :: string

record legacy_server =
  legacy_sdm :: "sdm_client option"
  legacy_auth :: "OAuth2Client option"
  legacy_config :: Config

definition legacy_cleanup :: "legacy_server \<Rightarrow> legacy_server" where
  "legacy_cleanup srv = srv\<lparr>legacy_sdm := None, legacy_auth := None\<rparr>"

section \<open>The current server: the Home Graph service and the handler table\<close>

text \<open>
  The Home Graph client of the vendor: a query answers with the \<open>data\<close> of its response,
  a state report likewise, or the promise rejects. The request id of a report is the
  clock's reading and is left out of the recorded call.
\<close>

record homegraph_client =
  devices_query :: "string \<Rightarrow> jsval outcome"
  devices_reportStateAndNotification :: "string \<Rightarrow> jsval \<Rightarrow> jsval outcome"

datatype hg_call =
    DevicesQuery string
  | ReportStateAndNotification string jsval

text \<open>
  \<open>measureOperation\<close> times the operation; its \<open>catch\<close> counts the failure and throws
  the value it caught.
\<close>

definition measureOperation :: "'c \<times> 'a outcome \<Rightarrow> 'c \<times> 'a outcome" where
  "measureOperation operation =
     (case operation of
        (calls, Inl error) \<Rightarrow> (calls, Inl error)
      | (calls, Inr result) \<Rightarrow> (calls, Inr result))"

text \<open>
  \<open>HomeGraphService\<close> holds the vendor client in a nullable field and reaches it through
  \<open>this.homegraph?.devices\<close>: without a client nothing is called and the answer is
  \<open>undefined\<close>. Its \<open>catch\<close> blocks throw the caught value as it is.
\<close>

record HomeGraphService =
  service_client :: "homegraph_client option"
  service_auth :: OAuth2Client

definition queryDevices :: "HomeGraphService \<Rightarrow> string \<Rightarrow> hg_call list \<times> jsval outcome" where
  "queryDevices service agentUserId =
     measureOperation
       (case service_client service of
          None \<Rightarrow> ([], Inr JUndefined)
        | Some client \<Rightarrow>
            ([DevicesQuery agentUserId],
             case devices_query client agentUserId of
               Inl error \<Rightarrow> Inl error
             | Inr data \<Rightarrow> Inr data))"

definition reportState :: "HomeGraphService \<Rightarrow> string \<Rightarrow> jsval \<Rightarrow> hg_call list \<times> jsval outcome" where
  "reportState service agentUserId deviceStates =
     measureOperation
       (case service_client service of
          None \<Rightarrow> ([], Inr JUndefined)
        | Some client \<Rightarrow>
            ([ReportStateAndNotification agentUserId deviceStates],
             case devices_reportStateAndNotification client agentUserId deviceStates of
               Inl error \<Rightarrow> Inl error
             | Inr data \<Rightarrow> Inr data))"

text \<open>The one content block every handler of the current server answers with.\<close>

definition text_content :: "jsval \<Rightarrow> jsval" where
  "text_content text = JArr
     [JObj [(''type'', JStr ''text''), (''text'', text), (''mimeType'', JStr ''application/json'')]]"

text \<open>
  The handlers receive \<open>this.homegraph!\<close>, which is \<open>null\<close> before initialisation and
  after cleanup: calling a method on it is a \<open>TypeError\<close>. The handler of
  \<open>list_smart_plugs\<close> reads \<open>args.agentUserId\<close> with no guard before it, so the read
  itself is a \<open>TypeError\<close> when the arguments are \<open>null\<close> or \<open>undefined\<close>; the other
  two handlers read their fields after the guard has established an object.
\<close>

definition hg_list_smart_plugs ::
  "runtime \<Rightarrow> HomeGraphService option \<Rightarrow> jsval \<Rightarrow> hg_call list \<times> jsval outcome" where
  "hg_list_smart_plugs rt service args =
     (case member args ''agentUserId'' of
        Inl error \<Rightarrow> ([], Inl error)
      | Inr given \<Rightarrow>
          (case to_string rt given of
             None \<Rightarrow> ([], Inl (NativeError ''TypeError''))
           | Some agentUserId \<Rightarrow>
               (case service of
                  None \<Rightarrow> ([], Inl (NativeError ''TypeError''))
                | Some svc \<Rightarrow>
                    (case queryDevices svc agentUserId of
                       (calls, Inl error) \<Rightarrow> (calls, Inl error)
                     | (calls, Inr response) \<Rightarrow>
                         (calls, Inr (text_content (json_stringify rt 2 response)))))))"

definition hg_control_smart_plug ::
  "runtime \<Rightarrow> HomeGraphService option \<Rightarrow> jsval \<Rightarrow> hg_call list \<times> jsval outcome" where
  "hg_control_smart_plug rt service args =
     (if \<not> to_boolean args \<or> \<not> typeof_object args \<or> \<not> js_in ''deviceId'' args
         \<or> \<not> js_in ''state'' args \<or> \<not> js_in ''agentUserId'' args
      then ([], Inl (ErrorObject InvalidParams
                       ''Missing required parameters: agentUserId, deviceId and state'' None))
      else
        (case to_string rt (opt_member args ''agentUserId'') of
           None \<Rightarrow> ([], Inl (NativeError ''TypeError''))
         | Some agentUserId \<Rightarrow>
             (case to_string rt (opt_member args ''deviceId'') of
                None \<Rightarrow> ([], Inl (NativeError ''TypeError''))
              | Some deviceId \<Rightarrow>
                  (let state = to_boolean (opt_member args ''state'')
                   in (case service of
                         None \<Rightarrow> ([], Inl (NativeError ''TypeError''))
                       | Some svc \<Rightarrow>
                           (case reportState svc agentUserId
                                   (JObj [(deviceId, JObj
                                      [(''online'', JBool True),
                                       (''status'', JStr ''SUCCESS''),
                                       (''on'', JBool state)])]) of
                              (calls, Inl error) \<Rightarrow> (calls, Inl error)
                            | (calls, Inr reported) \<Rightarrow>
                                (calls, Inr (text_content (json_stringify rt 0
                                   (JObj [(''success'', JBool True),
                                          (''deviceId'', JStr deviceId),
                                          (''state'', JBool state)]))))))))))"

text \<open>\<open>devices.find(d => d.id === deviceId)\<close>: reading \<open>id\<close> of an element fails on \<open>null\<close>.\<close>

fun find_device :: "string \<Rightarrow> jsval list \<Rightarrow> jsval outcome" where
  "find_device deviceId [] = Inr JUndefined"
| "find_device deviceId (d # ds) =
     (case member d ''id'' of
        Inl error \<Rightarrow> Inl error
      | Inr v \<Rightarrow> if v = JStr deviceId then Inr d else find_device deviceId ds)"

definition hg_get_smart_plug_state ::
  "runtime \<Rightarrow> HomeGraphService option \<Rightarrow> jsval \<Rightarrow> hg_call list \<times> jsval outcome" where
  "hg_get_smart_plug_state rt service args =
     (if \<not> to_boolean args \<or> \<not> typeof_object args \<or> \<not> js_in ''deviceId'' args
         \<or> \<not> js_in ''agentUserId'' args
      then ([], Inl (ErrorObject InvalidParams
                       ''Missing required parameters: agentUserId and deviceId'' None))
      else
        (case to_string rt (opt_member args ''agentUserId'') of
           None \<Rightarrow> ([], Inl (NativeError ''TypeError''))
         | Some agentUserId \<Rightarrow>
             (case to_string rt (opt_member args ''deviceId'') of
                None \<Rightarrow> ([], Inl (NativeError ''TypeError''))
              | Some deviceId \<Rightarrow>
                  (case service of
                     None \<Rightarrow> ([], Inl (NativeError ''TypeError''))
                   | Some svc \<Rightarrow>
                       (case queryDevices svc agentUserId of
                          (calls, Inl error) \<Rightarrow> (calls, Inl error)
                        | (calls, Inr queryResponse) \<Rightarrow>
                            (case member queryResponse ''payload'' of
                               Inl error \<Rightarrow> (calls, Inl error)
                             | Inr payload \<Rightarrow>
                                 (let devices =
                                    (case opt_member payload ''devices'' of
                                       JArr ds \<Rightarrow> ds
                                     | other \<Rightarrow> [])
                                  in (case find_device deviceId devices of
                                        Inl error \<Rightarrow> (calls, Inl error)
                                      | Inr device \<Rightarrow>
                                          (calls, Inr (text_content (json_stringify rt 2 device)))))))))))"

text \<open>The tool descriptors advertised by the current server.\<close>

record tool =
  tool_name :: string
  description :: string
  properties :: "(string \<times> string) list"
  required :: "string list"

definition tools :: "tool list" where
  "tools =
     [\<lparr>tool_name = ''list_smart_plugs'',
       description = ''List all available smart plugs and their current states'',
       properties = [(''agentUserId'', ''string'')],
       required = [''agentUserId'']\<rparr>,
      \<lparr>tool_name = ''control_smart_plug'',
       description = ''Turn a smart plug on or off'',
       properties = [(''agentUserId'', ''string''), (''deviceId'', ''string''), (''state'', ''boolean'')],
       required = [''agentUserId'', ''deviceId'', ''state'']\<rparr>,
      \<lparr>tool_name = ''get_smart_plug_state'',
       description = ''Get the current state of a specific smart plug'',
       properties = [(''agentUserId'', ''string''), (''deviceId'', ''string'')],
       required = [''agentUserId'', ''deviceId'']\<rparr>]"

type_synonym HandlerFunction =
  "runtime \<Rightarrow> HomeGraphService option \<Rightarrow> jsval \<Rightarrow> hg_call list \<times> jsval outcome"

definition handlers :: "(string \<times> HandlerFunction) list" where
  "handlers =
     [(''list_smart_plugs'', hg_list_smart_plugs),
      (''control_smart_plug'', hg_control_smart_plug),
      (''get_smart_plug_state'', hg_get_smart_plug_state)]"

text \<open>
  \<open>handlers\<close> is an object literal, so \<open>handlers[name]\<close> answers for its own three
  properties and, for any other name, with what it inherits from \<open>Object.prototype\<close>.
\<close>

definition object_prototype_keys :: "string list" where
  "object_prototype_keys =
     [''constructor'', ''__defineGetter__'', ''__defineSetter__'', ''hasOwnProperty'',
      ''__lookupGetter__'', ''__lookupSetter__'', ''isPrototypeOf'', ''propertyIsEnumerable'',
      ''toString'', ''valueOf'', ''__proto__'', ''toLocaleString'']"

datatype handler_lookup = Own HandlerFunction | Inherited | Absent

definition handlers_lookup :: "string \<Rightarrow> handler_lookup" where
  "handlers_lookup name =
     (case map_of handlers name of
        Some handler \<Rightarrow> Own handler
      | None \<Rightarrow> if name \<in> set object_prototype_keys then Inherited else Absent)"

record server =
  auth :: "OAuth2Client option"
  config :: Config
  homegraph :: "HomeGraphService option"

text \<open>
  The handler of a call-tool request. An absent handler is answered with
  \<open>MethodNotFound\<close>. An inherited member is truthy and is called as a plain function
  with the service and the arguments: each member of \<open>Object.prototype\<close> then either
  throws a \<open>TypeError\<close> itself (no \<open>this\<close>, or not a function) or returns a value
  without a \<open>content\<close> property, whose \<open>content.length\<close> is read next and throws one.
  A handler of the table returns an array as content, whose length is read without harm.
\<close>

definition callTool :: "runtime \<Rightarrow> server \<Rightarrow> string \<Rightarrow> jsval \<Rightarrow> hg_call list \<times> jsval outcome" where
  "callTool rt srv name toolArgs =
     measureOperation
       (case handlers_lookup name of
          Absent \<Rightarrow> ([], Inl (ErrorObject MethodNotFound (''Unknown tool: '' @ name) None))
        | Inherited \<Rightarrow> ([], Inl (NativeError ''TypeError''))
        | Own handler \<Rightarrow>
            (case handler rt (homegraph srv) (js_or toolArgs (JObj [])) of
               (calls, Inl error) \<Rightarrow> (calls, Inl error)
             | (calls, Inr content) \<Rightarrow> (calls, Inr content)))"

definition cleanup :: "server \<Rightarrow> server" where
  "cleanup srv = srv\<lparr>homegraph := None, auth := None\<rparr>"

section \<open>Reading results\<close>

text \<open>The code of a failure that is an error object; \<open>None\<close> for any other outcome.\<close>

fun code_of :: "jsval outcome \<Rightarrow> ErrorCode option" where
  "code_of (Inl (ErrorObject code message data)) = Some code"
| "code_of other = None"

fun is_boolean :: "jsval \<Rightarrow> bool" where
  "is_boolean (JBool b) = True"
| "is_boolean v = False"

text \<open>
  An element of a result carries boolean \<open>on\<close> and \<open>online\<close> fields, either as its own
  properties or, as the tool catalogue writes them, under its \<open>state\<close>.
\<close>

definition has_on_online :: "jsval \<Rightarrow> bool" where
  "has_on_online element \<longleftrightarrow>
     (is_boolean (opt_member element ''on'') \<and> is_boolean (opt_member element ''online''))
     \<or> (is_boolean (opt_member (opt_member element ''state'') ''on'')
        \<and> is_boolean (opt_member (opt_member element ''state'') ''online''))"



section \<open>Collaborators for the examples\<close>

text \<open>
  A runtime for the examples. They render no number and serialise no value but the empty
  object and \<open>undefined\<close>, on which \<open>JSON.stringify\<close> answers \<open>{}\<close> and \<open>undefined\<close>.
\<close>

definition example_runtime :: runtime where
  "example_runtime =
     \<lparr>number_to_string = (\<lambda>q. ''0''),
      json_stringify = (\<lambda>indent v. if v = JUndefined then JUndefined else JStr ''{}'')\<rparr>"

text \<open>
  Three devices of an account: an outlet with a custom name that is on and reachable,
  a thermostat, and an outlet that reports no traits at all.
\<close>

definition lamp :: device where
  "lamp = \<lparr>device_name = JStr ''enterprises/p/devices/lamp'',
           device_type = JStr ''sdm.devices.types.OUTLET'',
           device_traits = JObj
             [(''sdm.devices.traits.Info'', JObj [(''customName'', JStr ''Desk lamp'')]),
              (''sdm.devices.traits.OnOff'', JObj [(''on'', JBool True)]),
              (''sdm.devices.traits.Connectivity'', JObj [(''status'', JStr ''ONLINE'')])]\<rparr>"

definition thermostat :: device where
  "thermostat = \<lparr>device_name = JStr ''enterprises/p/devices/thermostat'',
                 device_type = JStr ''sdm.devices.types.THERMOSTAT'',
                 device_traits = JObj
                   [(''sdm.devices.traits.Connectivity'', JObj [(''status'', JStr ''OFFLINE'')])]\<rparr>"

definition heater :: device where
  "heater = \<lparr>device_name = JStr ''enterprises/p/devices/heater'',
             device_type = JStr ''sdm.devices.types.OUTLET'',
             device_traits = JUndefined\<rparr>"

text \<open>
  A vendor client that accepts every command and knows the three devices; one that
  rejects a get for a device it does not know, as the vendor's HTTP client does.
\<close>

definition working_client :: sdm_client where
  "working_client =
     \<lparr>devices_list = (\<lambda>parent. Inr (Some [lamp, thermostat, heater])),
      devices_executeCommand = (\<lambda>name command on. Inr ()),
      devices_get = (\<lambda>name. if name = ''enterprises/p/devices/lamp'' then Inr (Some lamp) else Inr None)\<rparr>"

definition rejecting_client :: sdm_client where
  "rejecting_client =
     \<lparr>devices_list = (\<lambda>parent. Inr (Some [lamp, thermostat, heater])),
      devices_executeCommand = (\<lambda>name command on. Inr ()),
      devices_get = (\<lambda>name. if name = ''enterprises/p/devices/lamp'' then Inr (Some lamp)
                             else Inl (NativeError ''Requested entity was not found.''))\<rparr>"

definition answering_homegraph :: homegraph_client where
  "answering_homegraph =
     \<lparr>devices_query = (\<lambda>agentUserId. Inr (JObj [])),
      devices_reportStateAndNotification = (\<lambda>agentUserId states. Inr (JObj []))\<rparr>"

definition failing_homegraph :: homegraph_client where
  "failing_homegraph =
     \<lparr>devices_query = (\<lambda>agentUserId. Inl (NativeError ''socket hang up'')),
      devices_reportStateAndNotification = (\<lambda>agentUserId states. Inl (NativeError ''socket hang up''))\<rparr>"

definition example_auth :: OAuth2Client where
  "example_auth = \<lparr>client_id = ''id'', client_secret = ''secret'', refresh_token = ''token''\<rparr>"

definition example_config :: Config where
  "example_config = \<lparr>clientId = ''id'', clientSecret = ''secret'', refreshToken = Some ''token''\<rparr>"

definition answering_service :: HomeGraphService where
  "answering_service = \<lparr>service_client = Some answering_homegraph, service_auth = example_auth\<rparr>"

definition running_server :: server where
  "running_server =
     \<lparr>auth = Some example_auth, config = example_config, homegraph = Some answering_service\<rparr>"

definition failing_server :: server where
  "failing_server =
     \<lparr>auth = Some example_auth, config = example_config,
      homegraph = Some \<lparr>service_client = Some failing_homegraph, service_auth = example_auth\<rparr>\<rparr>"

definition stopped_server :: server where
  "stopped_server = \<lparr>auth = None, config = example_config, homegraph = None\<rparr>"

definition running_legacy_server :: legacy_server where
  "running_legacy_server =
     \<lparr>legacy_sdm = Some working_client, legacy_auth = Some example_auth,
      legacy_config = example_config\<rparr>"

definition stopped_legacy_server :: legacy_server where
  "stopped_legacy_server =
     \<lparr>legacy_sdm = None, legacy_auth = None, legacy_config = example_config\<rparr>"

section \<open>Properties\<close>

lemma js_in_map_of: "js_in k (JObj kvs) = (map_of kvs k \<noteq> None)"
  by (simp add: map_of_eq_None_iff)

text \<open>
  Claim C1. When the vendor acknowledges the set command, \<open>control_smart_plug\<close> called
  with a string \<open>deviceId\<close> and a boolean \<open>state\<close> answers \<open>success: true\<close> with
  \<open>device.state.on\<close> equal to the requested state and \<open>device.state.online\<close> true. The
  only call that reaches the vendor is the command itself: the device is not fetched, so
  what the vendor would report for it has no part in the answer. This holds of the
  handler over the service and of the legacy switch; other properties of the bag are
  ignored.
\<close>

theorem control_reports_requested_state:
  assumes "map_of kvs ''deviceId'' = Some (JStr deviceId)"
    and "map_of kvs ''state'' = Some (JBool state)"
    and "devices_executeCommand client deviceId ''sdm.devices.commands.OnOff.Set'' state = Inr ()"
  shows "sdm_control_smart_plug rt (Some client) (JObj kvs) =
           ([ExecuteCommand deviceId ''sdm.devices.commands.OnOff.Set'' state],
            Inr (JObj [(''success'', JBool True),
                       (''device'', JObj [(''id'', JStr deviceId),
                          (''state'', JObj [(''on'', JBool state), (''online'', JBool True)])])]))
       \<and> legacy_callTool rt (Some client) ''control_smart_plug'' (JObj kvs) =
           ([ExecuteCommand deviceId ''sdm.devices.commands.OnOff.Set'' state],
            Inr (JObj [(''success'', JBool True),
                       (''device'', JObj [(''id'', JStr deviceId),
                          (''state'', JObj [(''on'', JBool state), (''online'', JBool True)])])]))"
proof -
  have "js_in ''deviceId'' (JObj kvs)" "js_in ''state'' (JObj kvs)"
    using assms(1,2) by (simp_all only: js_in_map_of) simp_all
  then show ?thesis
    using assms by (simp add: sdm_control_smart_plug_def legacy_callTool_def controlDevice_def)
qed

text \<open>
  The example of the specification: the lamp is on already and is asked to be on; and
  the same request for a device the vendor does not know, which is acknowledged and
  reported on and online all the same.
\<close>

theorem control_reports_requested_state_witness:
  "devices_executeCommand working_client ''X'' ''sdm.devices.commands.OnOff.Set'' True = Inr ()
   \<and> sdm_control_smart_plug example_runtime (Some working_client)
      (JObj [(''deviceId'', JStr ''X''), (''state'', JBool True)]) =
     ([ExecuteCommand ''X'' ''sdm.devices.commands.OnOff.Set'' True],
      Inr (JObj [(''success'', JBool True),
                 (''device'', JObj [(''id'', JStr ''X''),
                    (''state'', JObj [(''on'', JBool True), (''online'', JBool True)])])]))
   \<and> legacy_callTool example_runtime (Some working_client) ''control_smart_plug''
      (JObj [(''deviceId'', JStr ''X''), (''state'', JBool True)]) =
     ([ExecuteCommand ''X'' ''sdm.devices.commands.OnOff.Set'' True],
      Inr (JObj [(''success'', JBool True),
                 (''device'', JObj [(''id'', JStr ''X''),
                    (''state'', JObj [(''on'', JBool True), (''online'', JBool True)])])]))"
  using control_reports_requested_state
    [of "[(''deviceId'', JStr ''X''), (''state'', JBool True)]" "''X''" True working_client
        example_runtime]
  by (simp add: working_client_def)

text \<open>
  Claim C2. The claim asks that \<open>get_smart_plug_state\<close> for a device the vendor does
  not know fail with \<open>InvalidParams\<close>. The code builds that error, but throws it inside
  the \<open>try\<close> block whose \<open>catch\<close> wraps whatever it receives: for the id
  \<open>unknown-id\<close> the failure that leaves the service, and the legacy switch, has code
  \<open>InternalError\<close>, with the \<open>InvalidParams\<close> object as its \<open>data\<close>. A vendor client
  that rejects the get instead of answering with empty data is wrapped the same way.
\<close>

theorem get_state_not_found_is_internal_error:
  "sdm_get_smart_plug_state example_runtime (Some working_client)
      (JObj [(''deviceId'', JStr ''unknown-id'')]) =
     ([DevicesGet ''unknown-id''],
      Inl (ErrorObject InternalError ''Failed to get device state: unknown-id''
             (Some (ErrorObject InvalidParams ''Device not found: unknown-id'' None))))
   \<and> legacy_callTool example_runtime (Some working_client) ''get_smart_plug_state''
      (JObj [(''deviceId'', JStr ''unknown-id'')]) =
     ([DevicesGet ''unknown-id''],
      Inl (ErrorObject InternalError ''Failed to get device state: unknown-id''
             (Some (ErrorObject InvalidParams ''Device not found: unknown-id'' None))))
   \<and> sdm_get_smart_plug_state example_runtime (Some rejecting_client)
      (JObj [(''deviceId'', JStr ''unknown-id'')]) =
     ([DevicesGet ''unknown-id''],
      Inl (ErrorObject InternalError ''Failed to get device state: unknown-id''
             (Some (NativeError ''Requested entity was not found.''))))"
  by (simp add: sdm_get_smart_plug_state_def legacy_callTool_def getDeviceState_def
      working_client_def rejecting_client_def)

theorem get_state_not_found_is_internal_error_witness:
  "code_of (snd (sdm_get_smart_plug_state example_runtime (Some working_client)
      (JObj [(''deviceId'', JStr ''unknown-id'')]))) = Some InternalError
   \<and> code_of (snd (legacy_callTool example_runtime (Some working_client) ''get_smart_plug_state''
      (JObj [(''deviceId'', JStr ''unknown-id'')]))) = Some InternalError"
  using get_state_not_found_is_internal_error by simp

text \<open>
  Claim C3, as stated, fails on the current server: called with an empty argument bag,
  \<open>list_smart_plugs\<close> answers with an array of one text block, which has no \<open>on\<close> and no
  \<open>online\<close> field, neither of its own nor under a \<open>state\<close>.
\<close>

theorem list_returns_text_block_counterexample:
  "callTool example_runtime running_server ''list_smart_plugs'' (JObj []) =
     ([DevicesQuery ''undefined''],
      Inr (JArr [JObj [(''type'', JStr ''text''), (''text'', JStr ''{}''),
                       (''mimeType'', JStr ''application/json'')]]))
   \<and> \<not> has_on_online (JObj [(''type'', JStr ''text''), (''text'', JStr ''{}''),
                       (''mimeType'', JStr ''application/json'')])"
  by (simp add: callTool_def handlers_lookup_def handlers_def hg_list_smart_plugs_def member_def
      queryDevices_def measureOperation_def running_server_def answering_service_def
      answering_homegraph_def example_runtime_def text_content_def js_or_def has_on_online_def)

text \<open>
  Claim C3, amended. On the current server a call of \<open>list_smart_plugs\<close> that succeeds,
  whatever its argument bag, the empty one included, answers with an array of exactly
  one text block (type \<open>text\<close>, mimeType \<open>application/json\<close>): the array is never empty
  and its element has no \<open>on\<close> or \<open>online\<close> field. For a bag that carries the
  \<open>agentUserId\<close> the descriptor requires, with a value that converts to a string, on an
  initialised server, the handler queries the Home Graph exactly once, for that agent
  user; when the query succeeds the text of the block is the serialised answer of the
  vendor, and when it fails the failure leaves the call as it is. The handler over the
  device service takes no arguments: when the vendor's list call succeeds it answers
  with an array whose every element has boolean \<open>on\<close> and \<open>online\<close> under \<open>state\<close>,
  and the array is empty when the vendor lists no device.
\<close>

theorem list_answers_with_one_text_block:
  assumes "map_of kvs ''agentUserId'' = Some given"
    and "to_string rt given = Some agentUserId"
    and "homegraph srv = Some service"
    and "service_client service = Some hg"
  shows "fst (callTool rt srv ''list_smart_plugs'' (JObj kvs)) = [DevicesQuery agentUserId]
       \<and> (\<forall>response. devices_query hg agentUserId = Inr response \<longrightarrow>
            snd (callTool rt srv ''list_smart_plugs'' (JObj kvs)) =
              Inr (JArr [JObj [(''type'', JStr ''text''), (''text'', json_stringify rt 2 response),
                               (''mimeType'', JStr ''application/json'')]]))
       \<and> (\<forall>error. devices_query hg agentUserId = Inl error \<longrightarrow>
            snd (callTool rt srv ''list_smart_plugs'' (JObj kvs)) = Inl error)
       \<and> (\<forall>anyrt anysrv toolArgs calls content.
            callTool anyrt anysrv ''list_smart_plugs'' toolArgs = (calls, Inr content) \<longrightarrow>
            (\<exists>text. content = JArr [JObj [(''type'', JStr ''text''), (''text'', text),
                                          (''mimeType'', JStr ''application/json'')]]
                  \<and> \<not> has_on_online (JObj [(''type'', JStr ''text''), (''text'', text),
                                          (''mimeType'', JStr ''application/json'')])))
       \<and> (\<forall>client listed. devices_list client ''enterprises/-'' = Inr listed \<longrightarrow>
            (\<exists>plugs. sdm_list_smart_plugs (Some client) =
                       ([DevicesList ''enterprises/-''], Inr (JArr plugs))
                \<and> (\<forall>plug \<in> set plugs. has_on_online plug)
                \<and> (listed = None \<or> listed = Some [] \<longrightarrow> plugs = [])))"
proof -
  have bag: "js_or (JObj kvs) (JObj []) = JObj kvs"
    by (simp add: js_or_def)
  have run: "callTool rt srv ''list_smart_plugs'' (JObj kvs) =
      ([DevicesQuery agentUserId],
       case devices_query hg agentUserId of
         Inl error \<Rightarrow> Inl error
       | Inr response \<Rightarrow> Inr (text_content (json_stringify rt 2 response)))"
    using assms
    by (simp add: callTool_def handlers_lookup_def handlers_def bag hg_list_smart_plugs_def
        member_def queryDevices_def measureOperation_def split: sum.split)
  have query: "fst (callTool rt srv ''list_smart_plugs'' (JObj kvs)) = [DevicesQuery agentUserId]"
    by (simp add: run)
  have answered: "snd (callTool rt srv ''list_smart_plugs'' (JObj kvs)) =
      Inr (JArr [JObj [(''type'', JStr ''text''), (''text'', json_stringify rt 2 response),
                       (''mimeType'', JStr ''application/json'')]])"
    if "devices_query hg agentUserId = Inr response" for response
    using that by (simp add: run text_content_def)
  have rejected: "snd (callTool rt srv ''list_smart_plugs'' (JObj kvs)) = Inl error"
    if "devices_query hg agentUserId = Inl error" for error
    using that by (simp add: run)
  have block: "\<not> has_on_online (JObj [(''type'', JStr ''text''), (''text'', body),
                                       (''mimeType'', JStr ''application/json'')])" for body
    by (simp add: has_on_online_def)
  have shape: "\<exists>text. content = JArr [JObj [(''type'', JStr ''text''), (''text'', text),
                                          (''mimeType'', JStr ''application/json'')]]"
    if "callTool anyrt anysrv ''list_smart_plugs'' toolArgs = (calls, Inr content)"
    for anyrt anysrv toolArgs calls content
    using that
    by (auto simp: callTool_def handlers_lookup_def handlers_def hg_list_smart_plugs_def
        measureOperation_def text_content_def split: sum.splits option.splits prod.splits)
  have one_block: "\<exists>text. content = JArr [JObj [(''type'', JStr ''text''), (''text'', text),
                                          (''mimeType'', JStr ''application/json'')]]
                  \<and> \<not> has_on_online (JObj [(''type'', JStr ''text''), (''text'', text),
                                          (''mimeType'', JStr ''application/json'')])"
    if "callTool anyrt anysrv ''list_smart_plugs'' toolArgs = (calls, Inr content)"
    for anyrt anysrv toolArgs calls content
    using shape [OF that] block by blast
  have plug: "has_on_online (smartPlug d)" for d
    by (simp add: has_on_online_def smartPlug_def)
  have service_list: "\<exists>plugs. sdm_list_smart_plugs (Some client) =
                       ([DevicesList ''enterprises/-''], Inr (JArr plugs))
                \<and> (\<forall>plug \<in> set plugs. has_on_online plug)
                \<and> (listed = None \<or> listed = Some [] \<longrightarrow> plugs = [])"
    if "devices_list client ''enterprises/-'' = Inr listed" for client listed
    using that plug
    by (auto simp: sdm_list_smart_plugs_def listDevices_def Let_def split: option.split)
  show ?thesis
    using query answered rejected one_block service_list by blast
qed

theorem list_answers_with_one_text_block_witness:
  "map_of [(''agentUserId'', JStr ''user-1'')] ''agentUserId'' = Some (JStr ''user-1'')
   \<and> to_string example_runtime (JStr ''user-1'') = Some ''user-1''
   \<and> homegraph running_server = Some answering_service
   \<and> service_client answering_service = Some answering_homegraph
   \<and> callTool example_runtime running_server ''list_smart_plugs''
        (JObj [(''agentUserId'', JStr ''user-1'')]) =
       ([DevicesQuery ''user-1''],
        Inr (JArr [JObj [(''type'', JStr ''text''), (''text'', JStr ''{}''),
                         (''mimeType'', JStr ''application/json'')]]))
   \<and> sdm_list_smart_plugs (Some working_client) =
       ([DevicesList ''enterprises/-''], Inr (JArr [smartPlug lamp, smartPlug heater]))
   \<and> has_on_online (smartPlug lamp) \<and> has_on_online (smartPlug heater)"
proof -
  have given: "map_of [(''agentUserId'', JStr ''user-1'')] ''agentUserId'' = Some (JStr ''user-1'')"
    by simp
  have converts: "to_string example_runtime (JStr ''user-1'') = Some ''user-1''"
    by simp
  have initialised: "homegraph running_server = Some answering_service"
    by (simp add: running_server_def)
  have client: "service_client answering_service = Some answering_homegraph"
    by (simp add: answering_service_def)
  have listed: "sdm_list_smart_plugs (Some working_client) =
       ([DevicesList ''enterprises/-''], Inr (JArr [smartPlug lamp, smartPlug heater]))"
    by (simp add: sdm_list_smart_plugs_def listDevices_def working_client_def lamp_def heater_def
        thermostat_def OUTLET_def)
  have plugs: "has_on_online (smartPlug lamp) \<and> has_on_online (smartPlug heater)"
    by (simp add: has_on_online_def smartPlug_def)
  show ?thesis
    using given converts initialised client listed plugs
      list_answers_with_one_text_block [OF given converts initialised client]
    by (simp add: answering_homegraph_def example_runtime_def prod_eq_iff)
qed

text \<open>
  Claim C4, as stated, fails: \<open>control_smart_plug\<close> called with \<open>state\<close> given as the
  string \<open>false\<close> is not rejected. The command is sent to the vendor, with \<open>on\<close> true,
  and the call answers with success.
\<close>

theorem control_string_state_counterexample:
  "sdm_control_smart_plug example_runtime (Some working_client)
      (JObj [(''deviceId'', JStr ''X''), (''state'', JStr ''false'')]) =
     ([ExecuteCommand ''X'' ''sdm.devices.commands.OnOff.Set'' True],
      Inr (JObj [(''success'', JBool True),
                 (''device'', JObj [(''id'', JStr ''X''),
                    (''state'', JObj [(''on'', JBool True), (''online'', JBool True)])])]))"
  by (simp add: sdm_control_smart_plug_def controlDevice_def working_client_def)

text \<open>
  Claim C4, amended. When the required fields \<open>deviceId\<close> and \<open>state\<close> are present in
  the argument bag, \<open>control_smart_plug\<close> makes no check of their runtime types: whatever
  the values are, the call never fails with \<open>InvalidParams\<close>; the values are coerced by
  \<open>String\<close> and \<open>Boolean\<close>, and with an initialised vendor client and a \<open>deviceId\<close> that
  converts, the command is sent to the vendor with the coerced values.
\<close>

theorem present_fields_are_coerced_not_checked:
  assumes "js_in ''deviceId'' args" and "js_in ''state'' args"
  shows "code_of (snd (sdm_control_smart_plug rt sdm args)) \<noteq> Some InvalidParams
       \<and> code_of (snd (legacy_callTool rt sdm ''control_smart_plug'' args)) \<noteq> Some InvalidParams
       \<and> (\<forall>client deviceId. sdm = Some client \<and> to_string rt (opt_member args ''deviceId'') = Some deviceId \<longrightarrow>
            fst (sdm_control_smart_plug rt sdm args) =
              [ExecuteCommand deviceId ''sdm.devices.commands.OnOff.Set'' (to_boolean (opt_member args ''state''))]
          \<and> fst (legacy_callTool rt sdm ''control_smart_plug'' args) =
              [ExecuteCommand deviceId ''sdm.devices.commands.OnOff.Set'' (to_boolean (opt_member args ''state''))])"
proof -
  obtain kvs where args: "args = JObj kvs"
    using assms(1) by (cases args) simp_all
  have "code_of (snd (sdm_control_smart_plug rt sdm args)) \<noteq> Some InvalidParams"
    using assms unfolding args
    by (simp add: sdm_control_smart_plug_def controlDevice_def not_initialized_def Let_def
             split: option.split sum.split)
  moreover have "code_of (snd (legacy_callTool rt sdm ''control_smart_plug'' args)) \<noteq> Some InvalidParams"
    using assms unfolding args
    by (simp add: legacy_callTool_def not_initialized_def Let_def split: option.split sum.split)
  moreover have "fst (sdm_control_smart_plug rt sdm args) =
      [ExecuteCommand deviceId ''sdm.devices.commands.OnOff.Set'' (to_boolean (opt_member args ''state''))]"
    if "sdm = Some client" "to_string rt (opt_member args ''deviceId'') = Some deviceId"
    for client deviceId
    using assms that unfolding args
    by (simp add: sdm_control_smart_plug_def controlDevice_def Let_def split: sum.split)
  moreover have "fst (legacy_callTool rt sdm ''control_smart_plug'' args) =
      [ExecuteCommand deviceId ''sdm.devices.commands.OnOff.Set'' (to_boolean (opt_member args ''state''))]"
    if "sdm = Some client" "to_string rt (opt_member args ''deviceId'') = Some deviceId"
    for client deviceId
    using assms that unfolding args
    by (simp add: legacy_callTool_def Let_def split: sum.split)
  ultimately show ?thesis by blast
qed

theorem present_fields_are_coerced_not_checked_witness:
  "js_in ''deviceId'' (JObj [(''deviceId'', JStr ''X''), (''state'', JStr ''false'')])
   \<and> js_in ''state'' (JObj [(''deviceId'', JStr ''X''), (''state'', JStr ''false'')])
   \<and> code_of (snd (sdm_control_smart_plug example_runtime (Some working_client)
         (JObj [(''deviceId'', JStr ''X''), (''state'', JStr ''false'')]))) \<noteq> Some InvalidParams
   \<and> fst (sdm_control_smart_plug example_runtime (Some working_client)
         (JObj [(''deviceId'', JStr ''X''), (''state'', JStr ''false'')])) =
       [ExecuteCommand ''X'' ''sdm.devices.commands.OnOff.Set'' True]
   \<and> fst (legacy_callTool example_runtime (Some working_client) ''control_smart_plug''
         (JObj [(''deviceId'', JStr ''X''), (''state'', JStr ''false'')])) =
       [ExecuteCommand ''X'' ''sdm.devices.commands.OnOff.Set'' True]"
  using present_fields_are_coerced_not_checked
    [of "JObj [(''deviceId'', JStr ''X''), (''state'', JStr ''false'')]" example_runtime
        "Some working_client"]
  by simp

text \<open>
  Claim C5. When the argument bag of \<open>control_smart_plug\<close> lacks \<open>deviceId\<close> or
  \<open>state\<close> (also when it is no object at all), the call fails with an error object of
  code \<open>InvalidParams\<close> and no call reaches the vendor: the list of vendor calls is
  empty, whatever the vendor client is. This holds of the handler and of the legacy
  switch.
\<close>

theorem control_missing_field_invalid_params:
  assumes "\<not> js_in ''deviceId'' args \<or> \<not> js_in ''state'' args"
  shows "sdm_control_smart_plug rt sdm args =
           ([], Inl (ErrorObject InvalidParams ''Missing required parameters: deviceId and state'' None))
       \<and> legacy_callTool rt sdm ''control_smart_plug'' args =
           ([], Inl (ErrorObject InvalidParams ''Missing required parameters: deviceId and state'' None))"
  using assms by (auto simp: sdm_control_smart_plug_def legacy_callTool_def)

theorem control_missing_field_invalid_params_witness:
  "\<not> js_in ''state'' (JObj [(''deviceId'', JStr ''missing'')])
   \<and> sdm_control_smart_plug example_runtime (Some working_client) (JObj [(''deviceId'', JStr ''missing'')]) =
       ([], Inl (ErrorObject InvalidParams ''Missing required parameters: deviceId and state'' None))
   \<and> legacy_callTool example_runtime (Some working_client) ''control_smart_plug''
         (JObj [(''deviceId'', JStr ''missing'')]) =
       ([], Inl (ErrorObject InvalidParams ''Missing required parameters: deviceId and state'' None))"
  using control_missing_field_invalid_params
    [of "JObj [(''deviceId'', JStr ''missing'')]" example_runtime "Some working_client"]
  by simp

text \<open>
  Claim C6. The claim asks that a call for any name outside the dispatch table fail with
  \<open>MethodNotFound\<close>. The current server looks the name up in the object literal
  \<open>handlers\<close>, which also answers for the names it inherits: \<open>toString\<close> is no tool and
  no property of the table, yet the lookup finds a function, the \<open>MethodNotFound\<close> branch
  is skipped and the call fails with a \<open>TypeError\<close>. The legacy switch answers the same
  name with \<open>MethodNotFound\<close>.
\<close>

theorem inherited_name_not_rejected:
  "''toString'' \<notin> set (map tool_name tools)
   \<and> map_of handlers ''toString'' = None
   \<and> callTool rt srv ''toString'' toolArgs = ([], Inl (NativeError ''TypeError''))
   \<and> legacy_callTool rt sdm ''toString'' args =
       ([], Inl (ErrorObject MethodNotFound ''Unknown tool: toString'' None))"
  by (simp add: tools_def handlers_def callTool_def handlers_lookup_def object_prototype_keys_def
      measureOperation_def legacy_callTool_def)

theorem inherited_name_not_rejected_witness:
  "callTool example_runtime running_server ''toString'' (JObj []) = ([], Inl (NativeError ''TypeError''))
   \<and> code_of (snd (callTool example_runtime running_server ''toString'' (JObj []))) = None
   \<and> code_of (snd (legacy_callTool example_runtime (Some working_client) ''toString'' (JObj []))) =
       Some MethodNotFound"
  using inherited_name_not_rejected
    [of example_runtime running_server "JObj []" "Some working_client" "JObj []"]
  by simp

text \<open>
  Claim C7, as stated, fails: when the vendor's query is rejected with an \<open>Error\<close>, the
  handler of \<open>list_smart_plugs\<close> throws that value, and the value leaves the handler of
  the call-tool request as it is, an \<open>Error\<close> and no error object of code
  \<open>InternalError\<close>.
\<close>

theorem unstructured_exception_counterexample:
  "callTool example_runtime failing_server ''list_smart_plugs'' (JObj [(''agentUserId'', JStr ''user-1'')]) =
     ([DevicesQuery ''user-1''], Inl (NativeError ''socket hang up''))"
  by (simp add: callTool_def handlers_lookup_def handlers_def hg_list_smart_plugs_def member_def
      queryDevices_def measureOperation_def failing_server_def failing_homegraph_def js_or_def)

text \<open>
  Claim C7, amended. Whatever a handler of the table throws leaves the handler of the
  call-tool request unchanged, with the vendor calls made so far: an error object passes
  through as it is, and so does any other value, which is not turned into an error
  object of code \<open>InternalError\<close> there.
\<close>

theorem handler_exception_passes_unchanged:
  assumes "map_of handlers name = Some handler"
    and "handler rt (homegraph srv) (js_or toolArgs (JObj [])) = (calls, Inl error)"
  shows "callTool rt srv name toolArgs = (calls, Inl error)"
  using assms by (simp add: callTool_def handlers_lookup_def measureOperation_def)

theorem handler_exception_passes_unchanged_witness:
  "map_of handlers ''control_smart_plug'' = Some hg_control_smart_plug
   \<and> hg_control_smart_plug example_runtime (homegraph failing_server) (js_or (JObj []) (JObj [])) =
       ([], Inl (ErrorObject InvalidParams
                   ''Missing required parameters: agentUserId, deviceId and state'' None))
   \<and> callTool example_runtime failing_server ''control_smart_plug'' (JObj []) =
       ([], Inl (ErrorObject InvalidParams
                   ''Missing required parameters: agentUserId, deviceId and state'' None))"
proof -
  have h: "map_of handlers ''control_smart_plug'' = Some hg_control_smart_plug"
    by (simp add: handlers_def)
  have e: "hg_control_smart_plug example_runtime (homegraph failing_server) (js_or (JObj []) (JObj [])) =
       ([], Inl (ErrorObject InvalidParams
                   ''Missing required parameters: agentUserId, deviceId and state'' None))"
    by (simp add: hg_control_smart_plug_def js_or_def)
  show ?thesis
    using h e handler_exception_passes_unchanged [OF h e] by simp
qed



text \<open>
  Claim C9. Cleanup sets the service and the authenticator of the server to \<open>null\<close>.
  Running it twice leaves the server as running it once does, and on a server whose two
  references are \<open>null\<close> already it changes nothing. The same holds of the legacy
  server and its vendor client.
\<close>

theorem cleanup_releases_and_is_idempotent:
  "homegraph (cleanup srv) = None \<and> auth (cleanup srv) = None
   \<and> cleanup (cleanup srv) = cleanup srv
   \<and> (homegraph srv = None \<and> auth srv = None \<longrightarrow> cleanup srv = srv)
   \<and> legacy_sdm (legacy_cleanup old) = None \<and> legacy_auth (legacy_cleanup old) = None
   \<and> legacy_cleanup (legacy_cleanup old) = legacy_cleanup old
   \<and> (legacy_sdm old = None \<and> legacy_auth old = None \<longrightarrow> legacy_cleanup old = old)"
  by (simp add: cleanup_def legacy_cleanup_def)

theorem cleanup_releases_and_is_idempotent_witness:
  "homegraph stopped_server = None \<and> auth stopped_server = None
   \<and> cleanup stopped_server = stopped_server
   \<and> cleanup running_server = stopped_server
   \<and> cleanup (cleanup running_server) = cleanup running_server
   \<and> legacy_sdm stopped_legacy_server = None \<and> legacy_auth stopped_legacy_server = None
   \<and> legacy_cleanup stopped_legacy_server = stopped_legacy_server
   \<and> legacy_cleanup running_legacy_server = stopped_legacy_server"
  using cleanup_releases_and_is_idempotent [of stopped_server stopped_legacy_server]
    cleanup_releases_and_is_idempotent [of running_server running_legacy_server]
  by (simp add: stopped_server_def running_server_def cleanup_def stopped_legacy_server_def
      running_legacy_server_def legacy_cleanup_def)

text \<open>
  Claim C10. When the argument bag of \<open>control_smart_plug\<close> has both \<open>deviceId\<close> and
  \<open>state\<close>, the state sent to the vendor, and echoed as \<open>on\<close> when the vendor
  acknowledges, is \<open>Boolean(state)\<close> whatever the type of the value: the string
  \<open>false\<close> is truthy and turns the plug on, the number 0 and the empty string turn it
  off. The vendor client is initialised and \<open>deviceId\<close> converts to a string.
\<close>

theorem control_state_is_truthiness:
  assumes "js_in ''deviceId'' args" and "js_in ''state'' args"
    and "to_string rt (opt_member args ''deviceId'') = Some deviceId"
  shows "fst (sdm_control_smart_plug rt (Some client) args) =
           [ExecuteCommand deviceId ''sdm.devices.commands.OnOff.Set''
              (to_boolean (opt_member args ''state''))]
       \<and> fst (legacy_callTool rt (Some client) ''control_smart_plug'' args) =
           [ExecuteCommand deviceId ''sdm.devices.commands.OnOff.Set''
              (to_boolean (opt_member args ''state''))]
       \<and> (devices_executeCommand client deviceId ''sdm.devices.commands.OnOff.Set''
              (to_boolean (opt_member args ''state'')) = Inr () \<longrightarrow>
            snd (sdm_control_smart_plug rt (Some client) args) =
              Inr (JObj [(''success'', JBool True),
                 (''device'', JObj [(''id'', JStr deviceId),
                    (''state'', JObj [(''on'', JBool (to_boolean (opt_member args ''state''))),
                                      (''online'', JBool True)])])])
          \<and> snd (legacy_callTool rt (Some client) ''control_smart_plug'' args) =
              Inr (JObj [(''success'', JBool True),
                 (''device'', JObj [(''id'', JStr deviceId),
                    (''state'', JObj [(''on'', JBool (to_boolean (opt_member args ''state''))),
                                      (''online'', JBool True)])])]))
       \<and> to_boolean (JStr ''false'') \<and> \<not> to_boolean (JNum 0) \<and> \<not> to_boolean (JStr '''')"
proof -
  obtain kvs where args: "args = JObj kvs"
    using assms(1) by (cases args) simp_all
  have "fst (sdm_control_smart_plug rt (Some client) args) =
           [ExecuteCommand deviceId ''sdm.devices.commands.OnOff.Set''
              (to_boolean (opt_member args ''state''))]"
    using assms unfolding args
    by (simp add: sdm_control_smart_plug_def controlDevice_def Let_def split: sum.split)
  moreover have "fst (legacy_callTool rt (Some client) ''control_smart_plug'' args) =
           [ExecuteCommand deviceId ''sdm.devices.commands.OnOff.Set''
              (to_boolean (opt_member args ''state''))]"
    using assms unfolding args
    by (simp add: legacy_callTool_def Let_def split: sum.split)
  moreover have "snd (sdm_control_smart_plug rt (Some client) args) =
              Inr (JObj [(''success'', JBool True),
                 (''device'', JObj [(''id'', JStr deviceId),
                    (''state'', JObj [(''on'', JBool (to_boolean (opt_member args ''state''))),
                                      (''online'', JBool True)])])])"
    if "devices_executeCommand client deviceId ''sdm.devices.commands.OnOff.Set''
              (to_boolean (opt_member args ''state'')) = Inr ()"
    using assms that unfolding args
    by (simp add: sdm_control_smart_plug_def controlDevice_def Let_def)
  moreover have "snd (legacy_callTool rt (Some client) ''control_smart_plug'' args) =
              Inr (JObj [(''success'', JBool True),
                 (''device'', JObj [(''id'', JStr deviceId),
                    (''state'', JObj [(''on'', JBool (to_boolean (opt_member args ''state''))),
                                      (''online'', JBool True)])])])"
    if "devices_executeCommand client deviceId ''sdm.devices.commands.OnOff.Set''
              (to_boolean (opt_member args ''state'')) = Inr ()"
    using assms that unfolding args
    by (simp add: legacy_callTool_def Let_def)
  moreover have "to_boolean (JStr ''false'') \<and> \<not> to_boolean (JNum 0) \<and> \<not> to_boolean (JStr '''')"
    by simp
  ultimately show ?thesis by blast
qed

theorem control_state_is_truthiness_witness:
  "sdm_control_smart_plug example_runtime (Some working_client)
      (JObj [(''deviceId'', JStr ''plug-1''), (''state'', JStr ''false'')]) =
     ([ExecuteCommand ''plug-1'' ''sdm.devices.commands.OnOff.Set'' True],
      Inr (JObj [(''success'', JBool True),
                 (''device'', JObj [(''id'', JStr ''plug-1''),
                    (''state'', JObj [(''on'', JBool True), (''online'', JBool True)])])]))
   \<and> sdm_control_smart_plug example_runtime (Some working_client)
      (JObj [(''deviceId'', JStr ''plug-1''), (''state'', JNum 0)]) =
     ([ExecuteCommand ''plug-1'' ''sdm.devices.commands.OnOff.Set'' False],
      Inr (JObj [(''success'', JBool True),
                 (''device'', JObj [(''id'', JStr ''plug-1''),
                    (''state'', JObj [(''on'', JBool False), (''online'', JBool True)])])]))
   \<and> sdm_control_smart_plug example_runtime (Some working_client)
      (JObj [(''deviceId'', JStr ''plug-1''), (''state'', JStr '''')]) =
     ([ExecuteCommand ''plug-1'' ''sdm.devices.commands.OnOff.Set'' False],
      Inr (JObj [(''success'', JBool True),
                 (''device'', JObj [(''id'', JStr ''plug-1''),
                    (''state'', JObj [(''on'', JBool False), (''online'', JBool True)])])]))"
  using control_state_is_truthiness
    [of "JObj [(''deviceId'', JStr ''plug-1''), (''state'', JStr ''false'')]" example_runtime
        "''plug-1''" working_client]
    control_state_is_truthiness
    [of "JObj [(''deviceId'', JStr ''plug-1''), (''state'', JNum 0)]" example_runtime
        "''plug-1''" working_client]
    control_state_is_truthiness
    [of "JObj [(''deviceId'', JStr ''plug-1''), (''state'', JStr '''')]" example_runtime
        "''plug-1''" working_client]
  by (simp add: working_client_def prod_eq_iff)

end
